theory Spec2Isabelle
  imports Complex_Main "HOL-Library.Log_Nat"
begin

section \<open>Floating point numbers\<close>

text \<open>
  Python's \<^verbatim>\<open>float\<close> is the IEEE 754 binary64 format.  A finite value other than zero is
  kept as the rational number it denotes; the two zeros, the two infinities and NaN are
  values of their own (\<open>Fin 0\<close> is the positive zero).  Every operation computes the exact
  result and rounds it to the nearest value of the format, ties to the even significand:
  53 significant bits, the least exponent -1022 (below it the spacing stays
  \<open>2 ^ -1074\<close>), and overflow to infinity from \<open>2 ^ 1024\<close> on.
\<close>

datatype double = Fin rat | NegZero | PosInf | NegInf | NaN

definition pow2 :: "int \<Rightarrow> rat" where
  "pow2 k = (if 0 \<le> k then 2 ^ nat k else 1 / 2 ^ nat (- k))"

text \<open>For \<open>x > 0\<close>, the \<open>k\<close> with \<open>2 ^ k \<le> x < 2 ^ (k + 1)\<close>.\<close>

definition ilog2 :: "rat \<Rightarrow> int" where
  "ilog2 x = (if 1 \<le> x then bitlen \<lfloor>x\<rfloor> - 1 else - bitlen (\<lceil>1 / x\<rceil> - 1))"

definition round_half_even :: "rat \<Rightarrow> int" where
  "round_half_even x =
     (let f = \<lfloor>x\<rfloor>; d = x - of_int f
      in if d < 1 / 2 \<or> (d = 1 / 2 \<and> even f) then f else f + 1)"

text \<open>The magnitude \<open>x \<ge> 0\<close> rounded to the grid of the format, not yet cut at the top.\<close>

definition round_magnitude :: "rat \<Rightarrow> rat" where
  "round_magnitude x =
     (if x = 0 then 0
      else let ulp = pow2 (max (ilog2 x) (- 1022) - 52)
           in of_int (round_half_even (x / ulp)) * ulp)"

text \<open>The double for a sign and an exact magnitude.\<close>

definition make_double :: "bool \<Rightarrow> rat \<Rightarrow> double" where
  "make_double neg x =
     (let r = round_magnitude x
      in if 2 ^ 1024 \<le> r then (if neg then NegInf else PosInf)
         else if r = 0 then (if neg then NegZero else Fin 0)
         else Fin (if neg then - r else r))"

fun is_neg :: "double \<Rightarrow> bool" where
  "is_neg (Fin q) = (q < 0)"
| "is_neg NegZero = True"
| "is_neg NegInf = True"
| "is_neg _ = False"

fun is_zero :: "double \<Rightarrow> bool" where
  "is_zero (Fin q) = (q = 0)"
| "is_zero NegZero = True"
| "is_zero _ = False"

fun is_inf :: "double \<Rightarrow> bool" where
  "is_inf PosInf = True"
| "is_inf NegInf = True"
| "is_inf _ = False"

text \<open>The number a finite double denotes (0 for the others).\<close>

fun val :: "double \<Rightarrow> rat" where
  "val (Fin q) = q"
| "val _ = 0"

definition fmul :: "double \<Rightarrow> double \<Rightarrow> double" where
  "fmul a b =
     (if a = NaN \<or> b = NaN then NaN
      else if is_inf a \<or> is_inf b then
        (if is_zero a \<or> is_zero b then NaN
         else if is_neg a \<noteq> is_neg b then NegInf else PosInf)
      else make_double (is_neg a \<noteq> is_neg b) (\<bar>val a\<bar> * \<bar>val b\<bar>))"

text \<open>Division by a double that is not zero (Python raises before dividing by zero).\<close>

definition fdiv :: "double \<Rightarrow> double \<Rightarrow> double" where
  "fdiv a b =
     (if a = NaN \<or> b = NaN then NaN
      else if is_inf a then
        (if is_inf b then NaN else if is_neg a \<noteq> is_neg b then NegInf else PosInf)
      else if is_inf b then (if is_neg a \<noteq> is_neg b then NegZero else Fin 0)
      else make_double (is_neg a \<noteq> is_neg b) (\<bar>val a\<bar> / \<bar>val b\<bar>))"

definition fadd :: "double \<Rightarrow> double \<Rightarrow> double" where
  "fadd a b =
     (if a = NaN \<or> b = NaN then NaN
      else if is_inf a then (if is_inf b \<and> a \<noteq> b then NaN else a)
      else if is_inf b then b
      else let s = val a + val b
           in if s = 0 then (if is_neg a \<and> is_neg b then NegZero else Fin 0)
              else make_double (s < 0) \<bar>s\<bar>)"

text \<open>A decimal literal of the program text denotes the double nearest to it.\<close>

definition float_literal :: "rat \<Rightarrow> double" where
  "float_literal x = make_double (x < 0) \<bar>x\<bar>"

section \<open>Python values and exceptions\<close>

text \<open>
  The server in \<^verbatim>\<open>src/mcpserver/fetch_metal_price.py\<close> computes on values that come out of
  \<^verbatim>\<open>response.json()\<close>, so they are dynamically typed.  A value is one of the shapes a JSON
  document decodes to.  Python's \<^verbatim>\<open>int\<close> is unbounded and is an \<open>int\<close> here.  A \<^verbatim>\<open>str\<close>
  is a list of 8-bit characters read as the code points U+0000 to U+00FF.  A \<^verbatim>\<open>dict\<close>
  is an association list with string keys, looked up with \<open>map_of\<close>.
\<close>

datatype pyval =
    PNone
  | PBool bool
  | PInt int
  | PFloat double
  | PStr string
  | PList "pyval list"
  | PDict "(string \<times> pyval) list"

text \<open>
  An exception is its class and the text \<^verbatim>\<open>str(e)\<close> gives.  \<open>RequestException\<close> stands for
  \<^verbatim>\<open>requests.RequestException\<close> and its subclasses; \<open>OtherException\<close> is any further
  subclass of \<^verbatim>\<open>Exception\<close>, with its name.
\<close>

datatype exn_class =
    RequestException
  | KeyError
  | IndexError
  | TypeError
  | AttributeError
  | ValueError
  | ZeroDivisionError
  | OverflowError
  | MemoryError
  | OtherException string

datatype exn = Exn exn_class string

fun class_of :: "exn \<Rightarrow> exn_class" where
  "class_of (Exn c msg) = c"

fun type_name :: "pyval \<Rightarrow> string" where
  "type_name PNone = ''NoneType''"
| "type_name (PBool b) = ''bool''"
| "type_name (PInt i) = ''int''"
| "type_name (PFloat x) = ''float''"
| "type_name (PStr s) = ''str''"
| "type_name (PList xs) = ''list''"
| "type_name (PDict kvs) = ''dict''"

text \<open>A name between apostrophes, as the messages of the interpreter show it.\<close>

definition quoted :: "string \<Rightarrow> string" where
  "quoted s = [CHR 0x27] @ s @ [CHR 0x27]"

definition unsupported_operands :: "string \<Rightarrow> pyval \<Rightarrow> pyval \<Rightarrow> exn" where
  "unsupported_operands opr a b =
     Exn TypeError (''unsupported operand type(s) for '' @ opr @ '': '' @
       quoted (type_name a) @ '' and '' @ quoted (type_name b))"

definition cannot_multiply_sequence :: "pyval \<Rightarrow> exn" where
  "cannot_multiply_sequence b =
     Exn TypeError (''can'' @ [CHR 0x27] @ ''t multiply sequence by non-int of type '' @
       quoted (type_name b))"

definition int_too_large :: exn where
  "int_too_large = Exn OverflowError ''int too large to convert to float''"

text \<open>Truth value testing, as \<^verbatim>\<open>not x\<close> and \<^verbatim>\<open>if x\<close> use it.  NaN counts as true.\<close>

fun truthy :: "pyval \<Rightarrow> bool" where
  "truthy PNone = False"
| "truthy (PBool b) = b"
| "truthy (PInt i) = (i \<noteq> 0)"
| "truthy (PFloat x) = (\<not> is_zero x)"
| "truthy (PStr s) = (s \<noteq> [])"
| "truthy (PList xs) = (xs \<noteq> [])"
| "truthy (PDict kvs) = (kvs \<noteq> [])"

text \<open>\<^verbatim>\<open>x.get(key, default)\<close>: only a dict has the method.\<close>

fun py_get :: "pyval \<Rightarrow> string \<Rightarrow> pyval \<Rightarrow> exn + pyval" where
  "py_get (PDict kvs) key dflt =
     Inr (case map_of kvs key of None \<Rightarrow> dflt | Some v \<Rightarrow> v)"
| "py_get x key dflt =
     Inl (Exn AttributeError (quoted (type_name x) @ '' object has no attribute '' @ quoted ''get''))"

text \<open>
  \<^verbatim>\<open>x[0]\<close>.  The keys of a decoded JSON object are strings, so the integer key 0 is never
  present in a dict.
\<close>

fun py_getitem0 :: "pyval \<Rightarrow> exn + pyval" where
  "py_getitem0 (PList []) = Inl (Exn IndexError ''list index out of range'')"
| "py_getitem0 (PList (x # xs)) = Inr x"
| "py_getitem0 (PStr []) = Inl (Exn IndexError ''string index out of range'')"
| "py_getitem0 (PStr (c # cs)) = Inr (PStr [c])"
| "py_getitem0 (PDict kvs) = Inl (Exn KeyError ''0'')"
| "py_getitem0 x = Inl (Exn TypeError (quoted (type_name x) @ '' object is not subscriptable''))"

text \<open>The numeric tower: \<^verbatim>\<open>bool\<close> is a subclass of \<^verbatim>\<open>int\<close>.\<close>

fun as_int :: "pyval \<Rightarrow> int option" where
  "as_int (PBool b) = Some (if b then 1 else 0)"
| "as_int (PInt i) = Some i"
| "as_int _ = None"

text \<open>
  An integer as a double: the nearest one, and \<^verbatim>\<open>OverflowError\<close> when that is beyond
  the largest finite double.
\<close>

definition float_of_int :: "int \<Rightarrow> exn + double" where
  "float_of_int i =
     (let d = make_double (i < 0) \<bar>of_int i\<bar>
      in if is_inf d then Inl int_too_large else Inr d)"

text \<open>The double of a number, where an arithmetic operator needs one; no value for the rest.\<close>

fun as_double :: "pyval \<Rightarrow> (exn + double) option" where
  "as_double (PFloat x) = Some (Inr x)"
| "as_double (PBool b) = Some (float_of_int (if b then 1 else 0))"
| "as_double (PInt i) = Some (float_of_int i)"
| "as_double _ = None"

fun is_sequence :: "pyval \<Rightarrow> bool" where
  "is_sequence (PStr s) = True"
| "is_sequence (PList xs) = True"
| "is_sequence _ = False"

text \<open>
  One statement after another: the first exception raised ends the sequence and is the
  outcome of the whole.
\<close>

definition py_bind :: "exn + 'a \<Rightarrow> ('a \<Rightarrow> exn + 'b) \<Rightarrow> exn + 'b" where
  "py_bind r f = (case r of Inl e \<Rightarrow> Inl e | Inr v \<Rightarrow> f v)"

text \<open>
  Sequence repetition \<^verbatim>\<open>s * n\<close> on a 64-bit interpreter.  The count must fit a signed
  64-bit index; a count below one gives the empty sequence; a length beyond the index
  range is refused (\<open>too_long\<close> is what the sequence type raises then).  Whether the
  interpreter obtains the memory for a result of \<open>n\<close> items is a fact of the machine it
  runs on, \<open>alloc n\<close>.  Allocations of bounded size (numbers, the reply) are taken to
  succeed.
\<close>

definition repeat :: "(nat \<Rightarrow> bool) \<Rightarrow> exn \<Rightarrow> int \<Rightarrow> 'a list \<Rightarrow> exn + 'a list" where
  "repeat alloc too_long n xs =
     (if n < - (2 ^ 63) \<or> 2 ^ 63 - 1 < n
        then Inl (Exn OverflowError
          (''cannot fit '' @ quoted ''int'' @ '' into an index-sized integer''))
      else if n \<le> 0 \<or> xs = [] then Inr []
      else if 2 ^ 63 - 1 < int (length xs) * n then Inl too_long
      else if alloc (length xs * nat n) then Inr (concat (replicate (nat n) xs))
      else Inl (Exn MemoryError []))"

definition string_too_long :: exn where
  "string_too_long = Exn OverflowError ''repeated string is too long''"

text \<open>
  \<^verbatim>\<open>a * b\<close>: the product of two integers; the rounded product of two numbers of which
  one is a float, the other converted first; the repetition of a string or list by an
  integer; and a \<^verbatim>\<open>TypeError\<close> for every other pair.
\<close>

definition py_mul :: "(nat \<Rightarrow> bool) \<Rightarrow> pyval \<Rightarrow> pyval \<Rightarrow> exn + pyval" where
  "py_mul alloc a b =
     (case (as_int a, as_int b) of
        (Some i, Some j) \<Rightarrow> Inr (PInt (i * j))
      | (Some i, None) \<Rightarrow>
          (case b of
             PFloat y \<Rightarrow> py_bind (float_of_int i) (\<lambda>x. Inr (PFloat (fmul x y)))
           | PStr cs \<Rightarrow> py_bind (repeat alloc string_too_long i cs) (\<lambda>r. Inr (PStr r))
           | PList xs \<Rightarrow> py_bind (repeat alloc (Exn MemoryError []) i xs) (\<lambda>r. Inr (PList r))
           | _ \<Rightarrow> Inl (unsupported_operands ''*'' a b))
      | (None, Some j) \<Rightarrow>
          (case a of
             PFloat x \<Rightarrow> py_bind (float_of_int j) (\<lambda>y. Inr (PFloat (fmul x y)))
           | PStr cs \<Rightarrow> py_bind (repeat alloc string_too_long j cs) (\<lambda>r. Inr (PStr r))
           | PList xs \<Rightarrow> py_bind (repeat alloc (Exn MemoryError []) j xs) (\<lambda>r. Inr (PList r))
           | _ \<Rightarrow> Inl (unsupported_operands ''*'' a b))
      | (None, None) \<Rightarrow>
          (case (a, b) of
             (PFloat x, PFloat y) \<Rightarrow> Inr (PFloat (fmul x y))
           | _ \<Rightarrow> if is_sequence a then Inl (cannot_multiply_sequence b)
                  else if is_sequence b then Inl (cannot_multiply_sequence a)
                  else Inl (unsupported_operands ''*'' a b)))"

text \<open>
  \<^verbatim>\<open>a / b\<close>: true division, defined on numbers only.  Two integers give the double
  nearest to their exact quotient; otherwise both operands are converted and divided.
\<close>

definition py_truediv :: "pyval \<Rightarrow> pyval \<Rightarrow> exn + pyval" where
  "py_truediv a b =
     (case (as_int a, as_int b) of
        (Some i, Some j) \<Rightarrow>
          if j = 0 then Inl (Exn ZeroDivisionError ''division by zero'')
          else (let d = make_double ((i < 0) \<noteq> (j < 0)) (\<bar>of_int i\<bar> / \<bar>of_int j\<bar>)
                in if is_inf d
                   then Inl (Exn OverflowError ''integer division result too large for a float'')
                   else Inr (PFloat d))
      | _ \<Rightarrow>
          (case (as_double a, as_double b) of
             (Some ra, Some rb) \<Rightarrow>
               py_bind ra (\<lambda>x. py_bind rb (\<lambda>y.
                 if is_zero y then Inl (Exn ZeroDivisionError ''float division by zero'')
                 else Inr (PFloat (fdiv x y))))
           | _ \<Rightarrow> Inl (unsupported_operands ''/'' a b)))"

text \<open>
  The value behind a format field \<^verbatim>\<open>{x:.2f}\<close> or \<^verbatim>\<open>{x:,.2f}\<close>: a number is rendered
  as a double, a string is refused with \<^verbatim>\<open>ValueError\<close>, anything else with
  \<^verbatim>\<open>TypeError\<close>.
\<close>

definition format_f :: "pyval \<Rightarrow> exn + double" where
  "format_f v =
     (case as_double v of
        Some r \<Rightarrow> r
      | None \<Rightarrow>
          (case v of
             PStr s \<Rightarrow>
               Inl (Exn ValueError (''Unknown format code '' @ quoted ''f'' @
                 '' for object of type '' @ quoted ''str''))
           | _ \<Rightarrow>
               Inl (Exn TypeError (''unsupported format string passed to '' @
                 type_name v @ ''.__format__''))))"

text \<open>
  \<^verbatim>\<open>try: ... except (E1, ..., En): return default\<close> around a computation: the listed
  classes are turned into the default, every other exception propagates.
\<close>

definition try_except :: "exn_class list \<Rightarrow> 'a \<Rightarrow> exn + 'a \<Rightarrow> exn + 'a" where
  "try_except classes dflt r =
     (case r of
        Inl e \<Rightarrow> if class_of e \<in> set classes then Inr dflt else Inl e
      | Inr v \<Rightarrow> Inr v)"

section \<open>Strings\<close>

text \<open>
  \<^verbatim>\<open>str.lower\<close> on U+0000 to U+00FF: the letters A to Z and the Latin-1 capitals U+00C0 to
  U+00DE (without the multiplication sign U+00D7) move up by 32; nothing else changes.
\<close>

definition lower_char :: "char \<Rightarrow> char" where
  "lower_char c =
     (let n = (of_char c :: nat)
      in if (65 \<le> n \<and> n \<le> 90) \<or> (192 \<le> n \<and> n \<le> 222 \<and> n \<noteq> 215)
         then char_of (n + 32) else c)"

definition lower :: "string \<Rightarrow> string" where
  "lower s = map lower_char s"

text \<open>
  \<^verbatim>\<open>str.isspace\<close> on the same range: tab to carriage return, the four separators
  U+001C to U+001F, the space, U+0085 and U+00A0.
\<close>

definition isspace :: "char \<Rightarrow> bool" where
  "isspace c =
     (let n = (of_char c :: nat)
      in (9 \<le> n \<and> n \<le> 13) \<or> (28 \<le> n \<and> n \<le> 32) \<or> n = 133 \<or> n = 160)"

text \<open>\<^verbatim>\<open>str.strip()\<close> removes the leading and the trailing whitespace.\<close>

definition strip :: "string \<Rightarrow> string" where
  "strip s = rev (dropWhile isspace (rev (dropWhile isspace s)))"

text \<open>\<^verbatim>\<open>sep.join(parts)\<close>.\<close>

fun join :: "string \<Rightarrow> string list \<Rightarrow> string" where
  "join sep [] = []"
| "join sep [x] = x"
| "join sep (x # y # ys) = x @ sep @ join sep (y # ys)"

section \<open>Constants of the module\<close>

record metal_config =
  symbol :: string
  price_key :: string
  import_duty :: double

text \<open>
  \<^verbatim>\<open>METAL_CONFIG\<close>, in the order the dict literal gives its keys, with a name for each of
  its two entries.  The two symbols are emoji; they are kept as the UTF-8 bytes of
  U+1F947 and U+1F948 and play no part in any computation.
\<close>

definition gold_entry :: metal_config where
  "gold_entry =
     \<lparr>symbol = [CHR 0xF0, CHR 0x9F, CHR 0xA5, CHR 0x87],
      price_key = ''xauPrice'', import_duty = float_literal 0.06\<rparr>"

definition silver_entry :: metal_config where
  "silver_entry =
     \<lparr>symbol = [CHR 0xF0, CHR 0x9F, CHR 0xA5, CHR 0x88],
      price_key = ''xagPrice'', import_duty = float_literal 0.075\<rparr>"

definition METAL_CONFIG :: "(string \<times> metal_config) list" where
  "METAL_CONFIG = [(''gold'', gold_entry), (''silver'', silver_entry)]"

definition GST_RATE :: double where
  "GST_RATE = float_literal 0.03"

definition GRAMS_PER_OUNCE :: double where
  "GRAMS_PER_OUNCE = float_literal 31.1035"

definition FALLBACK_EXCHANGE_RATE :: double where
  "FALLBACK_EXCHANGE_RATE = float_literal 83.0"

section \<open>The world outside the process\<close>

text \<open>
  What \<^verbatim>\<open>requests.get(...)\<close>, \<^verbatim>\<open>raise_for_status()\<close> and \<^verbatim>\<open>response.json()\<close> do
  together is the behaviour of a remote service: either one of the three raises, or the
  decoded body is at hand.  The two services the module contacts, and the memory the
  machine grants (see \<open>repeat\<close>), are inputs of the model.
\<close>

datatype http_outcome =
    Raises exn
  | Json pyval

record upstream =
  metal_api :: http_outcome
  rate_api :: http_outcome
  can_allocate :: "nat \<Rightarrow> bool"

text \<open>\<^verbatim>\<open>get_usd_to_inr_rate\<close>, lines 26 to 37.\<close>

definition get_usd_to_inr_rate :: "http_outcome \<Rightarrow> exn + pyval" where
  "get_usd_to_inr_rate response =
     try_except [RequestException, KeyError, TypeError] (PFloat FALLBACK_EXCHANGE_RATE)
       (case response of
          Raises e \<Rightarrow> Inl e
        | Json body \<Rightarrow>
            py_bind (py_get body ''rates'' (PDict [])) (\<lambda>rates.
            py_get rates ''INR'' (PFloat FALLBACK_EXCHANGE_RATE)))"

text \<open>\<^verbatim>\<open>fetch_metal_data\<close>, lines 39 to 51.\<close>

definition fetch_metal_data :: "http_outcome \<Rightarrow> exn + pyval" where
  "fetch_metal_data response =
     try_except [RequestException, KeyError, IndexError, TypeError] PNone
       (case response of
          Raises e \<Rightarrow> Inl e
        | Json body \<Rightarrow>
            py_bind (py_get body ''items'' (PList [])) (\<lambda>data.
            if truthy data then py_getitem0 data else Inr PNone))"

section \<open>The tax calculation\<close>

record prices =
  with_gst :: double
  with_import_duty :: double
  total_price :: double
  gst_amount :: double
  duty_amount :: double

text \<open>
  \<^verbatim>\<open>calculate_prices\<close>, lines 53 to 61, on floats as its signature says; the integer 1
  is converted to \<open>1.0\<close> before it is added to a float, and \<^verbatim>\<open>1 + g + d\<close> is
  \<^verbatim>\<open>(1 + g) + d\<close>.  The key \<^verbatim>\<open>'total'\<close> of the returned dict is the field
  \<open>total_price\<close>.
\<close>

definition calculate_prices :: "double \<Rightarrow> double \<Rightarrow> double \<Rightarrow> prices" where
  "calculate_prices base_price gst_rate import_duty_rate =
     \<lparr>with_gst = fmul base_price (fadd (Fin 1) gst_rate),
      with_import_duty = fmul base_price (fadd (Fin 1) import_duty_rate),
      total_price = fmul base_price (fadd (fadd (Fin 1) gst_rate) import_duty_rate),
      gst_amount = fmul base_price gst_rate,
      duty_amount = fmul base_price import_duty_rate\<rparr>"

text \<open>
  The same function called with whatever value the caller holds as the base price, the
  two rates being floats: each of its five products is that value times a float, so an
  integer is converted first (and may be too large), and anything that is not a number
  raises the \<^verbatim>\<open>TypeError\<close> of the first product.
\<close>

definition calculate_prices_py :: "pyval \<Rightarrow> double \<Rightarrow> double \<Rightarrow> exn + prices" where
  "calculate_prices_py base_price gst_rate import_duty_rate =
     (case as_double base_price of
        Some r \<Rightarrow> py_bind r (\<lambda>b. Inr (calculate_prices b gst_rate import_duty_rate))
      | None \<Rightarrow>
          if is_sequence base_price
          then Inl (cannot_multiply_sequence (PFloat (fadd (Fin 1) gst_rate)))
          else Inl (unsupported_operands ''*'' base_price (PFloat (fadd (Fin 1) gst_rate))))"

section \<open>The tool\<close>

text \<open>
  The tool returns one string.  Each \<^verbatim>\<open>return\<close> of \<^verbatim>\<open>fetch_metal_price\<close> is a
  constructor that carries the values its f-string interpolates; the rendering of the
  text itself (the markers, the two-decimal formatting, \<^verbatim>\<open>metal.title()\<close>) is not
  modelled.  The fields of a report, in the order of the text, with the expression each
  one renders:
  \<open>shown_symbol\<close> (\<^verbatim>\<open>metal_symbol\<close>), \<open>shown_metal\<close> (\<^verbatim>\<open>metal\<close>),
  \<open>usd_ounce\<close> (\<^verbatim>\<open>current_price_usd\<close>), \<open>inr_ounce\<close> (\<^verbatim>\<open>current_price_inr\<close>),
  \<open>ounce\<close> (\<^verbatim>\<open>ounce_prices\<close>), \<open>usd_10g\<close> (\<^verbatim>\<open>price_per_10g_usd\<close>),
  \<open>inr_10g\<close> (\<^verbatim>\<open>price_per_10g_inr\<close>), \<open>gram\<close> (\<^verbatim>\<open>gram_prices\<close>),
  \<open>shown_rate\<close> (\<^verbatim>\<open>exchange_rate\<close>), \<open>duty_percent\<close> (\<^verbatim>\<open>import_duty_rate*100\<close>)
  and \<open>tax_percent\<close> (\<^verbatim>\<open>total_tax_rate\<close>).  The last message carries the exception,
  of which the text shows \<^verbatim>\<open>str(e)\<close>.
\<close>

record report =
  shown_symbol :: string
  shown_metal :: string
  usd_ounce :: double
  inr_ounce :: double
  ounce :: prices
  usd_10g :: double
  inr_10g :: double
  gram :: prices
  shown_rate :: double
  duty_percent :: double
  tax_percent :: double

datatype reply =
    Invalid_metal_type string string
  | Unable_to_fetch string
  | Price_not_found string
  | Price_report report
  | Error_fetching string exn

text \<open>\<^verbatim>\<open>", ".join(f'"{m}"' for m in METAL_CONFIG.keys())\<close>, line 79.\<close>

definition valid_metals :: string where
  "valid_metals = join '', '' (map (\<lambda>m. [CHR 0x22] @ m @ [CHR 0x22]) (map fst METAL_CONFIG))"

text \<open>Lines 111 to 140: the base prices, the two tax tables and the report.\<close>

definition price_report ::
  "(nat \<Rightarrow> bool) \<Rightarrow> metal_config \<Rightarrow> string \<Rightarrow> pyval \<Rightarrow> pyval \<Rightarrow> exn + reply" where
  "price_report alloc config metal current_price_usd exchange_rate =
     (let metal_symbol = symbol config;
          import_duty_rate = import_duty config
      in
      py_bind (py_mul alloc current_price_usd exchange_rate) (\<lambda>current_price_inr.
      py_bind (py_truediv current_price_usd (PFloat GRAMS_PER_OUNCE)) (\<lambda>q_usd.
      py_bind (py_mul alloc q_usd (PInt 10)) (\<lambda>price_per_10g_usd.
      py_bind (py_truediv current_price_inr (PFloat GRAMS_PER_OUNCE)) (\<lambda>q_inr.
      py_bind (py_mul alloc q_inr (PInt 10)) (\<lambda>price_per_10g_inr.
      py_bind (calculate_prices_py current_price_inr GST_RATE import_duty_rate) (\<lambda>ounce_prices.
      py_bind (calculate_prices_py price_per_10g_inr GST_RATE import_duty_rate) (\<lambda>gram_prices.
      let total_tax_rate = fmul (fadd GST_RATE import_duty_rate) (Fin 100) in
      py_bind (format_f current_price_usd) (\<lambda>f_usd.
      py_bind (format_f current_price_inr) (\<lambda>f_inr.
      py_bind (format_f price_per_10g_usd) (\<lambda>f_usd_10g.
      py_bind (format_f price_per_10g_inr) (\<lambda>f_inr_10g.
      py_bind (format_f exchange_rate) (\<lambda>f_rate.
      Inr (Price_report
        \<lparr>shown_symbol = metal_symbol,
         shown_metal = metal,
         usd_ounce = f_usd,
         inr_ounce = f_inr,
         ounce = ounce_prices,
         usd_10g = f_usd_10g,
         inr_10g = f_inr_10g,
         gram = gram_prices,
         shown_rate = f_rate,
         duty_percent = fmul import_duty_rate (Fin 100),
         tax_percent = total_tax_rate\<rparr>))))))))))))))"

text \<open>
  The body of the \<^verbatim>\<open>try\<close>, lines 78 to 140, on the selector as line 77 has normalised
  it.  The two fetches come before the checks of what they returned, as in the source.
\<close>

definition fetch_metal_price_try :: "upstream \<Rightarrow> string \<Rightarrow> exn + reply" where
  "fetch_metal_price_try env metal =
     (case map_of METAL_CONFIG metal of
        None \<Rightarrow> Inr (Invalid_metal_type metal valid_metals)
      | Some config \<Rightarrow>
          py_bind (fetch_metal_data (metal_api env)) (\<lambda>metal_data.
          py_bind (get_usd_to_inr_rate (rate_api env)) (\<lambda>exchange_rate.
          if \<not> truthy metal_data then Inr (Unable_to_fetch metal)
          else
            py_bind (py_get metal_data (price_key config) PNone) (\<lambda>current_price_usd.
            if \<not> truthy current_price_usd then Inr (Price_not_found metal)
            else price_report (can_allocate env) config metal current_price_usd exchange_rate))))"

text \<open>
  \<^verbatim>\<open>fetch_metal_price\<close>, lines 64 to 143: the selector is lowered and stripped, and
  \<^verbatim>\<open>except Exception\<close> turns whatever the body raises into the last message, which
  names the normalised selector.  The result keeps the sum type, so that a call that
  raises would be an \<open>Inl\<close>.
\<close>

definition fetch_metal_price :: "upstream \<Rightarrow> string \<Rightarrow> exn + reply" where
  "fetch_metal_price env metal0 =
     (let metal = strip (lower metal0)
      in case fetch_metal_price_try env metal of
           Inl e \<Rightarrow> Inr (Error_fetching metal e)
         | Inr out \<Rightarrow> Inr out)"

section \<open>Reading a reply, and upstream answers of the regular shape\<close>

text \<open>The report inside a reply, if the reply is one.\<close>

definition report_of :: "exn + reply \<Rightarrow> report option" where
  "report_of r = (case r of Inr (Price_report rep) \<Rightarrow> Some rep | _ \<Rightarrow> None)"

text \<open>
  The two services answering as they do when all is well: the price service with one
  item that holds both metals, the rate service with a table of rates; and a machine
  that grants every allocation.
\<close>

definition regular_upstream :: "pyval \<Rightarrow> pyval \<Rightarrow> pyval \<Rightarrow> upstream" where
  "regular_upstream xau xag inr =
     \<lparr>metal_api = Json (PDict [(''items'',
        PList [PDict [(''curr'', PStr ''USD''), (''xauPrice'', xau), (''xagPrice'', xag)]])]),
      rate_api = Json (PDict [(''base'', PStr ''USD''),
        (''rates'', PDict [(''USD'', PInt 1), (''INR'', inr)])]),
      can_allocate = (\<lambda>n. True)\<rparr>"

section \<open>Rounding, evaluated\<close>

lemma pow2_pos: "0 < pow2 k"
  by (simp add: pow2_def)

lemma pow2_Suc: "pow2 (k + 1) = 2 * pow2 k"
proof (cases "0 \<le> k")
  case True
  then show ?thesis by (simp add: pow2_def nat_add_distrib)
next
  case False
  then have "nat (- k) = Suc (nat (- (k + 1)))" by simp
  with False show ?thesis by (simp add: pow2_def)
qed

lemma pow2_mono: "j \<le> k \<Longrightarrow> pow2 j \<le> pow2 k"
proof (induction "nat (k - j)" arbitrary: k)
  case 0
  then show ?case by simp
next
  case (Suc n)
  then have "n = nat ((k - 1) - j)" "j \<le> k - 1" by simp_all
  then have "pow2 j \<le> pow2 (k - 1)" using Suc.hyps(1) by blast
  also have "\<dots> \<le> pow2 k"
    using pow2_Suc [of "k - 1"] pow2_pos [of "k - 1"] by simp
  finally show ?case .
qed

lemma pow2_add: "pow2 (j + k) = pow2 j * pow2 k"
proof -
  have "pow2 k = 2 powi k" for k
    by (simp add: pow2_def power_int_def power_one_over)
  then show ?thesis by (simp add: power_int_add)
qed

lemma ilog2_bounds:
  assumes "0 < x"
  shows "pow2 (ilog2 x) \<le> x" and "x < pow2 (ilog2 x + 1)"
proof -
  have "pow2 (ilog2 x) \<le> x \<and> x < pow2 (ilog2 x + 1)"
  proof (cases "1 \<le> x")
    case True
    define n where "n = \<lfloor>x\<rfloor>"
    have n: "0 < n" "of_int n \<le> x" "x < of_int n + 1"
      using True by (simp_all add: n_def) linarith
    from bitlen_bounds [OF n(1)]
    have b: "2 ^ nat (bitlen n - 1) \<le> n" "n < 2 ^ nat (bitlen n)" by simp_all
    have pos: "1 \<le> bitlen n" using n(1) by (simp add: bitlen_alt_def)
    have "(2::rat) ^ nat (bitlen n - 1) \<le> of_int n" using b(1) by simp
    then have lo: "(2::rat) ^ nat (bitlen n - 1) \<le> x" using n(2) by (rule order_trans)
    have "n + 1 \<le> 2 ^ nat (bitlen n)" using b(2) by simp
    then have "(of_int (n + 1) :: rat) \<le> of_int (2 ^ nat (bitlen n))" by (rule of_int_le_iff [THEN iffD2])
    then have "of_int n + 1 \<le> (2::rat) ^ nat (bitlen n)" by (simp del: of_int_le_numeral_power_cancel_iff)
    with n(3) have hi: "x < 2 ^ nat (bitlen n)" by (rule less_le_trans)
    from True pos lo hi show ?thesis
      by (simp add: ilog2_def pow2_def n_def)
  next
    case False
    define y where "y = 1 / x"
    define m where "m = \<lceil>y\<rceil> - 1"
    have y1: "1 < y" using False assms by (simp add: y_def)
    have m: "0 < m" "of_int m < y" "y \<le> of_int m + 1"
      using y1 by (simp_all add: m_def less_ceiling_iff) linarith+
    from bitlen_bounds [OF m(1)]
    have b: "2 ^ nat (bitlen m - 1) \<le> m" "m < 2 ^ nat (bitlen m)" by simp_all
    have pos: "1 \<le> bitlen m" using m(1) by (simp add: bitlen_alt_def)
    have "m + 1 \<le> 2 ^ nat (bitlen m)" using b(2) by simp
    then have "(of_int (m + 1) :: rat) \<le> of_int (2 ^ nat (bitlen m))" by (rule of_int_le_iff [THEN iffD2])
    then have "of_int m + 1 \<le> (2::rat) ^ nat (bitlen m)" by (simp del: of_int_le_numeral_power_cancel_iff)
    with m(3) have yhi: "y \<le> 2 ^ nat (bitlen m)" by (rule order_trans)
    have "(2::rat) ^ nat (bitlen m - 1) \<le> of_int m" using b(1) by simp
    then have ylo: "(2::rat) ^ nat (bitlen m - 1) < y" using m(2) by (rule le_less_trans)
    have x: "x = 1 / y" using assms by (simp add: y_def)
    have lo: "1 / 2 ^ nat (bitlen m) \<le> x"
      unfolding x using yhi y1 by (simp add: frac_le)
    have hi: "x < pow2 (- bitlen m + 1)"
    proof (cases "bitlen m = 1")
      case True
      then show ?thesis using False by (simp add: pow2_def)
    next
      case ne: False
      with pos have "\<not> 0 \<le> - bitlen m + 1" "nat (- (- bitlen m + 1)) = nat (bitlen m - 1)" by simp_all
      moreover have "1 / y < 1 / 2 ^ nat (bitlen m - 1)"
        using ylo by (simp add: frac_less2)
      ultimately show ?thesis unfolding x by (simp add: pow2_def)
    qed
    have "ilog2 x = - bitlen m"
      using False by (simp add: ilog2_def m_def y_def)
    moreover have "pow2 (- bitlen m) = 1 / 2 ^ nat (bitlen m)"
      using pos by (simp add: pow2_def)
    ultimately show ?thesis using lo hi by simp
  qed
  then show "pow2 (ilog2 x) \<le> x" and "x < pow2 (ilog2 x + 1)" by simp_all
qed

lemma ilog2_eqI:
  assumes "pow2 k \<le> x" and "x < pow2 (k + 1)"
  shows "ilog2 x = k"
proof -
  have pos: "0 < x" using assms(1) pow2_pos [of k] by simp
  note b = ilog2_bounds [OF pos]
  have "\<not> k + 1 \<le> ilog2 x"
  proof
    assume "k + 1 \<le> ilog2 x"
    then have "pow2 (k + 1) \<le> pow2 (ilog2 x)" by (rule pow2_mono)
    with b(1) assms(2) show False by simp
  qed
  moreover have "\<not> ilog2 x + 1 \<le> k"
  proof
    assume "ilog2 x + 1 \<le> k"
    then have "pow2 (ilog2 x + 1) \<le> pow2 k" by (rule pow2_mono)
    with b(2) assms(1) show False by simp
  qed
  ultimately show ?thesis by simp
qed

lemma round_half_even_eqI:
  assumes "\<bar>x - of_int n\<bar> < 1 / 2 \<or> (\<bar>x - of_int n\<bar> = 1 / 2 \<and> even n)"
  shows "round_half_even x = n"
proof -
  consider (lo) "of_int n \<le> x" "x < of_int n + 1 / 2"
    | (hi) "x < of_int n" "of_int n - 1 / 2 < x"
    | (tie_up) "x = of_int n + 1 / 2" "even n"
    | (tie_down) "x = of_int n - 1 / 2" "even n"
    using assms by (auto simp: abs_if split: if_splits) 
  then show ?thesis
  proof cases
    case lo
    then have "\<lfloor>x\<rfloor> = n" by (simp add: floor_unique)
    with lo show ?thesis by (simp add: round_half_even_def Let_def)
  next
    case hi
    then have f: "\<lfloor>x\<rfloor> = n - 1" by (simp add: floor_unique)
    with hi show ?thesis by (simp add: round_half_even_def Let_def)
  next
    case tie_up
    then have "\<lfloor>x\<rfloor> = n" by (simp add: floor_unique)
    with tie_up show ?thesis by (simp add: round_half_even_def Let_def)
  next
    case tie_down
    then have f: "\<lfloor>x\<rfloor> = n - 1" by (simp add: floor_unique)
    with tie_down show ?thesis by (simp add: round_half_even_def Let_def)
  qed
qed

lemma make_double_eval:
  assumes "pow2 k \<le> x" and "x < pow2 (k + 1)" and "- 1022 \<le> k"
    and "\<bar>x / pow2 (k - 52) - of_int n\<bar> < 1 / 2
         \<or> (\<bar>x / pow2 (k - 52) - of_int n\<bar> = 1 / 2 \<and> even n)"
    and "0 < n" and "of_int n * pow2 (k - 52) < 2 ^ 1024"
  shows "make_double neg x =
    Fin (if neg then - (of_int n * pow2 (k - 52)) else of_int n * pow2 (k - 52))"
proof -
  have pos: "0 < x" using assms(1) pow2_pos [of k] by simp
  have k: "ilog2 x = k" using assms(1,2) by (rule ilog2_eqI)
  have n: "round_half_even (x / pow2 (k - 52)) = n"
    using assms(4) by (rule round_half_even_eqI)
  have r: "round_magnitude x = of_int n * pow2 (k - 52)"
    using pos k assms(3) n by (simp add: round_magnitude_def max_def)
  have nz: "n \<noteq> 0" "pow2 (k - 52) \<noteq> 0"
    using assms(5) pow2_pos [of "k - 52"] by simp_all
  from r assms(6) nz show ?thesis
    by (simp add: make_double_def Let_def)
qed

section \<open>The roundings the scenarios need\<close>

lemma lit_gst:
  "float_literal 0.03 = Fin (1080863910568919 / 36028797018963968)"
  unfolding float_literal_def
  by (simp, subst make_double_eval [where k = "- 6" and n = 8646911284551352])
    (simp_all add: pow2_def)

lemma lit_gold:
  "float_literal 0.06 = Fin (1080863910568919 / 18014398509481984)"
  unfolding float_literal_def
  by (simp, subst make_double_eval [where k = "- 5" and n = 8646911284551352])
    (simp_all add: pow2_def)

lemma lit_silver:
  "float_literal 0.075 = Fin (5404319552844595 / 72057594037927936)"
  unfolding float_literal_def
  by (simp, subst make_double_eval [where k = "- 4" and n = 5404319552844595])
    (simp_all add: pow2_def)

lemma lit_ounce:
  "float_literal 31.1035 = Fin (8754856938119889 / 281474976710656)"
  unfolding float_literal_def
  by (simp, subst make_double_eval [where k = 4 and n = 8754856938119889])
    (simp_all add: pow2_def)

lemma lit_fallback:
  "float_literal 83.0 = Fin 83"
  unfolding float_literal_def
  by (simp, subst make_double_eval [where k = 6 and n = 5840605766746112])
    (simp_all add: pow2_def)

lemma lit_1105:
  "float_literal 1.105 = Fin (2488238794122199 / 2251799813685248)"
  unfolding float_literal_def
  by (simp, subst make_double_eval [where k = 0 and n = 4976477588244398])
    (simp_all add: pow2_def)

lemma lit_negative_total:
  "float_literal (- 452.35) = Fin (- (3978912678595789 / 8796093022208))"
  unfolding float_literal_def
  by (simp, subst make_double_eval [where k = 8 and n = 7957825357191578])
    (simp_all add: pow2_def)

lemma ten:
  "float_of_int 10 = Inr (Fin 10)"
  unfolding float_of_int_def
  by (simp, subst make_double_eval [where k = 3 and n = 5629499534213120])
    (simp_all add: pow2_def)

lemma one_plus_gst:
  "fadd (Fin 1) (Fin (1080863910568919 / 36028797018963968)) = Fin (4638707616191611 / 4503599627370496)"
  unfolding fadd_def
  by (simp add: Let_def, subst make_double_eval [where k = 0 and n = 4638707616191611])
    (simp_all add: pow2_def)

lemma rates_gold:
  "fadd (Fin (4638707616191611 / 4503599627370496)) (Fin (1080863910568919 / 18014398509481984)) = Fin (4908923593833841 / 4503599627370496)"
  unfolding fadd_def
  by (simp add: Let_def, subst make_double_eval [where k = 0 and n = 4908923593833841])
    (simp_all add: pow2_def)

lemma rates_silver:
  "fadd (Fin (4638707616191611 / 4503599627370496)) (Fin (5404319552844595 / 72057594037927936)) = Fin (2488238794122199 / 2251799813685248)"
  unfolding fadd_def
  by (simp add: Let_def, subst make_double_eval [where k = 0 and n = 4976477588244398])
    (simp_all add: pow2_def)

lemma one_plus_gold:
  "fadd (Fin 1) (Fin (1080863910568919 / 18014398509481984)) = Fin (2386907802506363 / 2251799813685248)"
  unfolding fadd_def
  by (simp add: Let_def, subst make_double_eval [where k = 0 and n = 4773815605012726])
    (simp_all add: pow2_def)

lemma percent_gold:
  "fmul (Fin (1080863910568919 / 18014398509481984)) (Fin 100) = Fin 6"
  unfolding fmul_def
  by (simp add: Let_def, subst make_double_eval [where k = 2 and n = 6755399441055744])
    (simp_all add: pow2_def)

lemma percent_silver:
  "fmul (Fin (5404319552844595 / 72057594037927936)) (Fin 100) = Fin (15 / 2)"
  unfolding fmul_def
  by (simp add: Let_def, subst make_double_eval [where k = 2 and n = 8444249301319680])
    (simp_all add: pow2_def)

lemma gold_base:
  "fmul (Fin 2000) (Fin 83) = Fin 166000"
  unfolding fmul_def
  by (simp add: Let_def, subst make_double_eval [where k = 17 and n = 5703716569088000])
    (simp_all add: pow2_def)

lemma gold_gst:
  "fmul (Fin 166000) (Fin (1080863910568919 / 36028797018963968)) = Fin 4980"
  unfolding fmul_def
  by (simp add: Let_def, subst make_double_eval [where k = 12 and n = 5475567906324480])
    (simp_all add: pow2_def)

lemma gold_duty:
  "fmul (Fin 166000) (Fin (1080863910568919 / 18014398509481984)) = Fin 9960"
  unfolding fmul_def
  by (simp add: Let_def, subst make_double_eval [where k = 13 and n = 5475567906324480])
    (simp_all add: pow2_def)

lemma gold_total:
  "fmul (Fin 166000) (Fin (4908923593833841 / 4503599627370496)) = Fin 180940"
  unfolding fmul_def
  by (simp add: Let_def, subst make_double_eval [where k = 17 and n = 6217051060305920])
    (simp_all add: pow2_def)

lemma gold_with_gst:
  "fmul (Fin 166000) (Fin (4638707616191611 / 4503599627370496)) = Fin 170980"
  unfolding fmul_def
  by (simp add: Let_def, subst make_double_eval [where k = 17 and n = 5874828066160640])
    (simp_all add: pow2_def)

lemma gold_quot:
  "fdiv (Fin 166000) (Fin (8754856938119889 / 281474976710656)) = Fin (5868115492173421 / 1099511627776)"
  unfolding fdiv_def
  by (simp add: Let_def, subst make_double_eval [where k = 12 and n = 5868115492173421])
    (simp_all add: pow2_def)

lemma gold_base_10g:
  "fmul (Fin (5868115492173421 / 1099511627776)) (Fin 10) = Fin (916893045652097 / 17179869184)"
  unfolding fmul_def
  by (simp add: Let_def, subst make_double_eval [where k = 15 and n = 7335144365216776])
    (simp_all add: pow2_def)

lemma gold_with_gst_10g:
  "fmul (Fin (916893045652097 / 17179869184)) (Fin (4638707616191611 / 4503599627370496)) = Fin (7555198696173279 / 137438953472)"
  unfolding fmul_def
  by (simp add: Let_def, subst make_double_eval [where k = 15 and n = 7555198696173279])
    (simp_all add: pow2_def)


lemma gold_scaled_with_gst:
  "fmul (Fin 170980) (Fin (2895879645294257 / 9007199254740992)) = Fin (236099959255415 / 4294967296)"
  unfolding fmul_def
  by (simp add: Let_def, subst make_double_eval [where k = 15 and n = 7555198696173280])
    (simp_all add: pow2_def)

lemma gold_with_gst_times_ten:
  "fmul (Fin 170980) (Fin 10) = Fin 1709800"
  unfolding fmul_def
  by (simp add: Let_def, subst make_double_eval [where k = 20 and n = 7343535082700800])
    (simp_all add: pow2_def)

lemma gold_scaled_with_gst_alt:
  "fdiv (Fin 1709800) (Fin (8754856938119889 / 281474976710656)) = Fin (7555198696173279 / 137438953472)"
  unfolding fdiv_def
  by (simp add: Let_def, subst make_double_eval [where k = 15 and n = 7555198696173279])
    (simp_all add: pow2_def)

lemma silver_base:
  "fmul (Fin 25) (Fin 83) = Fin 2075"
  unfolding fmul_def
  by (simp add: Let_def, subst make_double_eval [where k = 11 and n = 4562973255270400])
    (simp_all add: pow2_def)

lemma silver_duty:
  "fmul (Fin 2075) (Fin (5404319552844595 / 72057594037927936)) = Fin (1245 / 8)"
  unfolding fmul_def
  by (simp add: Let_def, subst make_double_eval [where k = 7 and n = 5475567906324480])
    (simp_all add: pow2_def)

lemma silver_total:
  "fmul (Fin 2075) (Fin (2488238794122199 / 2251799813685248)) = Fin (18343 / 8)"
  unfolding fmul_def
  by (simp add: Let_def, subst make_double_eval [where k = 11 and n = 5042085447073792])
    (simp_all add: pow2_def)

lemma silver_total_literal:
  "fmul (Fin 2075) (Fin (2488238794122199 / 2251799813685248)) = Fin (18343 / 8)"
  unfolding fmul_def
  by (simp add: Let_def, subst make_double_eval [where k = 11 and n = 5042085447073792])
    (simp_all add: pow2_def)

lemma negative_base:
  "fmul (Fin (- 5)) (Fin 83) = Fin (- 415)"
  unfolding fmul_def
  by (simp add: Let_def, subst make_double_eval [where k = 8 and n = 7300757208432640])
    (simp_all add: pow2_def)

lemma negative_total:
  "fmul (Fin (- 415)) (Fin (4908923593833841 / 4503599627370496)) = Fin (- (3978912678595789 / 8796093022208))"
  unfolding fmul_def
  by (simp add: Let_def, subst make_double_eval [where k = 8 and n = 7957825357191578])
    (simp_all add: pow2_def)

lemma hundred_total:
  "fmul (Fin 100) (Fin (4908923593833841 / 4503599627370496)) = Fin (7670193115365377 / 70368744177664)"
  unfolding fmul_def
  by (simp add: Let_def, subst make_double_eval [where k = 6 and n = 7670193115365377])
    (simp_all add: pow2_def)

lemma hundred_with_gst:
  "fmul (Fin 100) (Fin (4638707616191611 / 4503599627370496)) = Fin 103"
  unfolding fmul_def
  by (simp add: Let_def, subst make_double_eval [where k = 6 and n = 7247980650299392])
    (simp_all add: pow2_def)

lemma hundred_compounded:
  "fmul (Fin 103) (Fin (2386907802506363 / 2251799813685248)) = Fin (1920714872329339 / 17592186044416)"
  unfolding fmul_def
  by (simp add: Let_def, subst make_double_eval [where k = 6 and n = 7682859489317356])
    (simp_all add: pow2_def)

lemma hundred_gst:
  "fmul (Fin 100) (Fin (1080863910568919 / 36028797018963968)) = Fin 3"
  unfolding fmul_def
  by (simp add: Let_def, subst make_double_eval [where k = 1 and n = 6755399441055744])
    (simp_all add: pow2_def)

lemma hundred_duty:
  "fmul (Fin 100) (Fin (1080863910568919 / 18014398509481984)) = Fin 6"
  unfolding fmul_def
  by (simp add: Let_def, subst make_double_eval [where k = 2 and n = 6755399441055744])
    (simp_all add: pow2_def)

lemma hundred_plus_gst:
  "fadd (Fin 100) (Fin 3) = Fin 103"
  unfolding fadd_def
  by (simp add: Let_def, subst make_double_eval [where k = 6 and n = 7247980650299392])
    (simp_all add: pow2_def)

lemma hundred_sum:
  "fadd (Fin 103) (Fin 6) = Fin 109"
  unfolding fadd_def
  by (simp add: Let_def, subst make_double_eval [where k = 6 and n = 7670193115365376])
    (simp_all add: pow2_def)









lemma lit_hundred_total:
  "float_literal 109.00000000000001 = Fin (7670193115365377 / 70368744177664)"
  unfolding float_literal_def
  by (simp, subst make_double_eval [where k = 6 and n = 7670193115365377])
    (simp_all add: pow2_def)

lemma lit_hundred_compounded:
  "float_literal 109.18 = Fin (1920714872329339 / 17592186044416)"
  unfolding float_literal_def
  by (simp, subst make_double_eval [where k = 6 and n = 7682859489317356])
    (simp_all add: pow2_def)




section \<open>Normalising the selector\<close>

lemma lower_char_idem: "lower_char (lower_char c) = lower_char c"
  by (simp add: lower_char_def Let_def)

lemma isspace_lower_char: "isspace (lower_char c) = isspace c"
  by (simp add: lower_char_def isspace_def Let_def)

lemma lower_idem: "lower (lower s) = lower s"
  by (simp add: lower_def lower_char_idem)

lemma dropWhile_isspace_lower: "dropWhile isspace (lower s) = lower (dropWhile isspace s)"
  by (induction s) (simp_all add: lower_def isspace_lower_char)

lemma strip_lower: "strip (lower s) = lower (strip s)"
proof -
  have rev_lower: "rev (lower t) = lower (rev t)" for t
    by (simp add: lower_def rev_map)
  show ?thesis
    by (simp add: strip_def dropWhile_isspace_lower rev_lower)
qed

text \<open>A stripped string does not start with whitespace, and does not end with it.\<close>

lemma dropWhile_strip: "dropWhile isspace (strip s) = strip s"
proof (cases "strip s")
  case Nil
  then show ?thesis by simp
next
  case (Cons c cs)
  define u where "u = dropWhile isspace s"
  have "u = strip s @ rev (takeWhile isspace (rev u))"
    unfolding strip_def u_def[symmetric]
    by (metis rev_append rev_rev_ident takeWhile_dropWhile_id)
  with Cons have "u = c # (cs @ rev (takeWhile isspace (rev u)))" by simp
  then have "u \<noteq> []" "hd u = c" by (metis list.distinct(1), metis list.sel(1))
  then have "\<not> isspace c"
    unfolding u_def using hd_dropWhile by metis
  with Cons show ?thesis by simp
qed

lemma strip_idem: "strip (strip s) = strip s"
proof -
  have "rev (strip s) = dropWhile isspace (rev (dropWhile isspace s))"
    by (simp add: strip_def)
  then have "dropWhile isspace (rev (strip s)) = rev (strip s)"
    by simp
  then show ?thesis
    by (simp add: strip_def[of "strip s"] dropWhile_strip)
qed

lemma normalise_idem: "strip (lower (strip (lower s))) = strip (lower s)"
  by (simp add: strip_lower lower_idem strip_idem)

section \<open>What the tool returns, case by case\<close>

lemma py_bind_Inr [simp]: "py_bind (Inr x) f = f x"
  by (simp add: py_bind_def)

lemma py_bind_Inl [simp]: "py_bind (Inl e) f = Inl e"
  by (simp add: py_bind_def)

lemma ounce_not_zero: "\<not> is_zero GRAMS_PER_OUNCE"
  unfolding GRAMS_PER_OUNCE_def lit_ounce by simp

text \<open>With a float for the spot price and a float for the rate, lines 111 to 140 raise
  nothing, whatever the two floats are, and build the report from them.\<close>

lemma price_report_floats:
  "price_report alloc config metal (PFloat s) (PFloat r) =
    Inr (Price_report
      \<lparr>shown_symbol = symbol config,
       shown_metal = metal,
       usd_ounce = s,
       inr_ounce = fmul s r,
       ounce = calculate_prices (fmul s r) GST_RATE (import_duty config),
       usd_10g = fmul (fdiv s GRAMS_PER_OUNCE) (Fin 10),
       inr_10g = fmul (fdiv (fmul s r) GRAMS_PER_OUNCE) (Fin 10),
       gram = calculate_prices (fmul (fdiv (fmul s r) GRAMS_PER_OUNCE) (Fin 10))
                GST_RATE (import_duty config),
       shown_rate = r,
       duty_percent = fmul (import_duty config) (Fin 100),
       tax_percent = fmul (fadd GST_RATE (import_duty config)) (Fin 100)\<rparr>)"
  by (simp add: price_report_def Let_def py_mul_def py_truediv_def ounce_not_zero ten
      calculate_prices_py_def format_f_def)

text \<open>A true division that returns, returns a float.\<close>

lemma py_truediv_float: "py_truediv a b = Inr q \<Longrightarrow> \<exists>x. q = PFloat x"
  by (auto simp: py_truediv_def py_bind_def Let_def split: option.splits sum.splits if_splits)

text \<open>The memory of the machine matters to a product only when a sequence is repeated.\<close>

lemma py_mul_numbers:
  "as_double a \<noteq> None \<Longrightarrow> as_double b \<noteq> None \<Longrightarrow> py_mul alloc a b = py_mul alloc' a b"
  by (cases a; cases b) (simp_all add: py_mul_def)

lemma price_report_numbers:
  assumes "as_double spot \<noteq> None" and "as_double rate \<noteq> None"
  shows "price_report alloc config metal spot rate = price_report alloc' config metal spot rate"
proof -
  have ten: "py_mul alloc q (PInt 10) = py_mul alloc' q (PInt 10)"
    if "py_truediv a b = Inr q" for a b q
    using py_truediv_float [OF that] by (auto simp: py_mul_def)
  have step: "py_bind (py_truediv a b) (\<lambda>q. py_bind (py_mul alloc q (PInt 10)) f) =
      py_bind (py_truediv a b) (\<lambda>q. py_bind (py_mul alloc' q (PInt 10)) f)" for a b f
    by (cases "py_truediv a b") (simp_all add: ten)
  show ?thesis
    unfolding price_report_def Let_def py_mul_numbers [OF assms, of alloc alloc'] step ..
qed

lemma fetch_metal_price_unknown:
  assumes "map_of METAL_CONFIG (strip (lower m)) = None"
  shows "fetch_metal_price env m = Inr (Invalid_metal_type (strip (lower m)) valid_metals)"
  using assms by (simp add: fetch_metal_price_def fetch_metal_price_try_def Let_def)

lemma fetch_metal_price_fetched:
  assumes "map_of METAL_CONFIG (strip (lower m)) = Some config"
    and "fetch_metal_data (metal_api env) = Inr metal_data"
    and "truthy metal_data"
    and "py_get metal_data (price_key config) PNone = Inr spot"
    and "get_usd_to_inr_rate (rate_api env) = Inr rate"
  shows "fetch_metal_price env m =
    (if \<not> truthy spot then Inr (Price_not_found (strip (lower m)))
     else case price_report (can_allocate env) config (strip (lower m)) spot rate of
            Inl e \<Rightarrow> Inr (Error_fetching (strip (lower m)) e)
          | Inr out \<Rightarrow> Inr out)"
  using assms by (simp add: fetch_metal_price_def fetch_metal_price_try_def Let_def)

lemma valid_metals_text:
  "valid_metals = [CHR 0x22] @ ''gold'' @ [CHR 0x22] @ '', '' @ [CHR 0x22] @ ''silver'' @ [CHR 0x22]"
  by (simp add: valid_metals_def METAL_CONFIG_def)

lemma map_of_METAL_CONFIG_None: "map_of METAL_CONFIG k = None \<longleftrightarrow> k \<notin> {''gold'', ''silver''}"
  by (simp add: METAL_CONFIG_def)

lemma fetch_regular:
  "fetch_metal_data (metal_api (regular_upstream xau xag inr)) =
     Inr (PDict [(''curr'', PStr ''USD''), (''xauPrice'', xau), (''xagPrice'', xag)])"
  "get_usd_to_inr_rate (rate_api (regular_upstream xau xag inr)) = Inr inr"
  by (simp_all add: regular_upstream_def fetch_metal_data_def get_usd_to_inr_rate_def try_except_def)

lemma norm_examples:
  "strip (lower ''gold'') = ''gold''"
  "strip (lower ''silver'') = ''silver''"
  "strip (lower ''GOLD'') = ''gold''"
  "strip (lower '' Silver '') = ''silver''"
  "strip (lower ''platinum'') = ''platinum''"
  by code_simp+

lemma entry_fields:
  "price_key gold_entry = ''xauPrice''" "import_duty gold_entry = float_literal 0.06"
  "price_key silver_entry = ''xagPrice''" "import_duty silver_entry = float_literal 0.075"
  by (simp_all add: gold_entry_def silver_entry_def)

lemma gold_config:
  "map_of METAL_CONFIG (strip (lower ''gold'')) = Some gold_entry"
  "map_of METAL_CONFIG (strip (lower ''GOLD'')) = Some gold_entry"
  by (simp_all add: norm_examples METAL_CONFIG_def)

lemma silver_config:
  "map_of METAL_CONFIG (strip (lower ''silver'')) = Some silver_entry"
  "map_of METAL_CONFIG (strip (lower '' Silver '')) = Some silver_entry"
  by (simp_all add: norm_examples METAL_CONFIG_def)

text \<open>With answers of the regular shape, a float other than zero for the spot price and a
  float for the rate, the tool returns the report.\<close>

lemma fetch_metal_price_regular:
  assumes cfg: "map_of METAL_CONFIG (strip (lower m)) = Some config"
    and key: "map_of [(''curr'', PStr ''USD''), (''xauPrice'', xau), (''xagPrice'', xag)]
                (price_key config) = Some (PFloat s)"
    and nz: "\<not> is_zero s"
  shows "fetch_metal_price (regular_upstream xau xag (PFloat r)) m =
    Inr (Price_report
      \<lparr>shown_symbol = symbol config,
       shown_metal = strip (lower m),
       usd_ounce = s,
       inr_ounce = fmul s r,
       ounce = calculate_prices (fmul s r) GST_RATE (import_duty config),
       usd_10g = fmul (fdiv s GRAMS_PER_OUNCE) (Fin 10),
       inr_10g = fmul (fdiv (fmul s r) GRAMS_PER_OUNCE) (Fin 10),
       gram = calculate_prices (fmul (fdiv (fmul s r) GRAMS_PER_OUNCE) (Fin 10))
                GST_RATE (import_duty config),
       shown_rate = r,
       duty_percent = fmul (import_duty config) (Fin 100),
       tax_percent = fmul (fadd GST_RATE (import_duty config)) (Fin 100)\<rparr>)"
proof -
  have get: "py_get (PDict [(''curr'', PStr ''USD''), (''xauPrice'', xau), (''xagPrice'', xag)])
      (price_key config) PNone = Inr (PFloat s)"
    using key by simp
  have "truthy (PFloat s)"
    using nz by simp
  then show ?thesis
    by (simp add: fetch_metal_price_fetched [OF cfg fetch_regular(1) _ get fetch_regular(2)]
        price_report_floats)
qed

text \<open>Where the rate lookup does fall back: a request that raises one of the three classes
  its handler names, a body without \<^verbatim>\<open>rates\<close>, and a rate table without \<^verbatim>\<open>INR\<close>.\<close>

lemma rate_lookup_fallback:
  "c \<in> {RequestException, KeyError, TypeError} \<Longrightarrow>
     get_usd_to_inr_rate (Raises (Exn c msg)) = Inr (PFloat (float_literal 83.0))"
  "map_of body ''rates'' = None \<Longrightarrow>
     get_usd_to_inr_rate (Json (PDict body)) = Inr (PFloat (float_literal 83.0))"
  "map_of body ''rates'' = Some (PDict rates) \<Longrightarrow> map_of rates ''INR'' = None \<Longrightarrow>
     get_usd_to_inr_rate (Json (PDict body)) = Inr (PFloat (float_literal 83.0))"
  by (auto simp: get_usd_to_inr_rate_def try_except_def FALLBACK_EXCHANGE_RATE_def)

text \<open>The constants as doubles.\<close>

lemmas constant_values =
  GST_RATE_def [unfolded lit_gst]
  GRAMS_PER_OUNCE_def [unfolded lit_ounce]
  FALLBACK_EXCHANGE_RATE_def [unfolded lit_fallback]
  entry_fields(2) [unfolded lit_gold]
  entry_fields(4) [unfolded lit_silver]

text \<open>Lines 111 to 140 return nothing but a report.\<close>

lemma py_bind_Inr_iff: "py_bind r f = Inr v \<longleftrightarrow> (\<exists>x. r = Inr x \<and> f x = Inr v)"
  by (cases r) simp_all

lemma price_report_reply:
  "price_report alloc config metal spot rate = Inr out \<Longrightarrow> \<exists>rep. out = Price_report rep"
  by (auto simp: price_report_def Let_def py_bind_Inr_iff)

lemma known_metal_not_invalid:
  assumes "map_of METAL_CONFIG (strip (lower m)) = Some config"
  shows "fetch_metal_price env m \<noteq> Inr (Invalid_metal_type x y)"
proof
  assume a: "fetch_metal_price env m = Inr (Invalid_metal_type x y)"
  then have "fetch_metal_price_try env (strip (lower m)) = Inr (Invalid_metal_type x y)"
    by (auto simp: fetch_metal_price_def Let_def split: sum.splits)
  then show False
    using assms
    by (auto simp: fetch_metal_price_try_def py_bind_Inr_iff split: if_splits
        dest: price_report_reply)
qed

section \<open>The tax formulas\<close>

text \<open>
  Claim C1.  For every base price \<open>b\<close> and every import-duty rate \<open>d\<close>, the table that
  \<^verbatim>\<open>calculate_prices\<close> returns at the rate \<^verbatim>\<open>GST_RATE\<close> holds, in the arithmetic of
  doubles, \<open>b * (1 + 0.03)\<close> with GST, \<open>b * (1 + d)\<close> with duty, \<open>b * (1 + 0.03 + d)\<close> in
  total, \<open>b * 0.03\<close> of GST and \<open>b * d\<close> of duty.  The rates \<open>d\<close> the tool passes are 0.06
  for gold and 0.075 for silver.  The total multiplies the base by the sum of the rates,
  not by one rate after the other: at the base 100 and the rate 0.06 it is
  109.00000000000001, where compounding would give 109.18.
\<close>

theorem tax_formulas_additive:
  "calculate_prices b GST_RATE d =
     \<lparr>with_gst = fmul b (fadd (Fin 1) (float_literal 0.03)),
      with_import_duty = fmul b (fadd (Fin 1) d),
      total_price = fmul b (fadd (fadd (Fin 1) (float_literal 0.03)) d),
      gst_amount = fmul b (float_literal 0.03),
      duty_amount = fmul b d\<rparr>
   \<and> map_option import_duty (map_of METAL_CONFIG ''gold'') = Some (float_literal 0.06)
   \<and> map_option import_duty (map_of METAL_CONFIG ''silver'') = Some (float_literal 0.075)
   \<and> total_price (calculate_prices (Fin 100) GST_RATE (float_literal 0.06)) =
       float_literal 109.00000000000001
   \<and> fmul (with_gst (calculate_prices (Fin 100) GST_RATE (float_literal 0.06)))
        (fadd (Fin 1) (float_literal 0.06)) = float_literal 109.18
   \<and> float_literal 109.00000000000001 \<noteq> float_literal 109.18"
proof -
  have "calculate_prices b GST_RATE d =
     \<lparr>with_gst = fmul b (fadd (Fin 1) (float_literal 0.03)),
      with_import_duty = fmul b (fadd (Fin 1) d),
      total_price = fmul b (fadd (fadd (Fin 1) (float_literal 0.03)) d),
      gst_amount = fmul b (float_literal 0.03),
      duty_amount = fmul b d\<rparr>"
    by (simp add: calculate_prices_def GST_RATE_def)
  moreover have "map_option import_duty (map_of METAL_CONFIG ''gold'') = Some (float_literal 0.06)"
    "map_option import_duty (map_of METAL_CONFIG ''silver'') = Some (float_literal 0.075)"
    by (simp_all add: METAL_CONFIG_def entry_fields)
  moreover have "total_price (calculate_prices (Fin 100) GST_RATE (float_literal 0.06)) =
       float_literal 109.00000000000001"
    unfolding lit_hundred_total lit_gold constant_values
    by (simp add: calculate_prices_def one_plus_gst rates_gold hundred_total)
  moreover have "fmul (with_gst (calculate_prices (Fin 100) GST_RATE (float_literal 0.06)))
        (fadd (Fin 1) (float_literal 0.06)) = float_literal 109.18"
    unfolding lit_hundred_compounded lit_gold constant_values
    by (simp add: calculate_prices_def one_plus_gst one_plus_gold hundred_with_gst
        hundred_compounded)
  moreover have "float_literal 109.00000000000001 \<noteq> float_literal 109.18"
    unfolding lit_hundred_total lit_hundred_compounded by simp
  ultimately show ?thesis by blast
qed

section \<open>Rejected and accepted inputs\<close>

text \<open>
  Against claim C2 as it is worded: a negative spot price and a zero exchange rate are
  not refused.  With gold at \<open>-5.0\<close> dollars and a rate of 83.0 the tool returns a report
  whose total per ounce is \<open>-452.35\<close>, and with gold at 2000.0 dollars and a rate of 0.0 a
  report whose total per ounce is 0.0.
\<close>

theorem nonpositive_inputs_counterexample:
  "map_option (total_price \<circ> ounce) (report_of (fetch_metal_price
      (regular_upstream (PFloat (Fin (- 5))) (PFloat (Fin 25)) (PFloat (Fin 83))) ''gold'')) =
     Some (float_literal (- 452.35))
   \<and> map_option (total_price \<circ> ounce) (report_of (fetch_metal_price
      (regular_upstream (PFloat (Fin 2000)) (PFloat (Fin 25)) (PFloat (Fin 0))) ''gold'')) =
     Some (Fin 0)"
proof -
  have zero: "fmul (Fin 2000) (Fin 0) = Fin 0" "fmul (Fin 0) x = (if x = NaN \<or> is_inf x then NaN
      else if is_neg x then NegZero else Fin 0)" for x
    by (auto simp: fmul_def make_double_def round_magnitude_def)
  show ?thesis
    unfolding lit_negative_total
    by (simp add: fetch_metal_price_regular [OF gold_config(1), where s = "Fin (- 5)"]
        fetch_metal_price_regular [OF gold_config(1), where s = "Fin 2000"]
        report_of_def calculate_prices_def constant_values entry_fields(1)
        one_plus_gst rates_gold negative_base negative_total zero)
qed

text \<open>
  Claim C2, amended.  Let the selector name a metal, let the price service deliver its
  data and the rate lookup a rate.  If the spot price of the metal is missing from the
  data or is zero (any value Python counts as false), the tool returns the message that
  the price was not found, and no report, whatever the rate is.  A negative spot price and
  a zero or negative rate are not refused: if the spot price is a float \<open>s\<close> other than
  zero and the rate a float \<open>r\<close>, whatever their signs, the tool returns a report computed
  from them, with the base \<open>s * r\<close> per ounce.
\<close>

theorem spot_guard:
  assumes cfg: "map_of METAL_CONFIG (strip (lower m)) = Some config"
    and data: "fetch_metal_data (metal_api env) = Inr metal_data" "truthy metal_data"
    and spot: "py_get metal_data (price_key config) PNone = Inr spot"
    and rate: "get_usd_to_inr_rate (rate_api env) = Inr rate"
  shows "(\<not> truthy spot \<longrightarrow>
            fetch_metal_price env m = Inr (Price_not_found (strip (lower m)))
            \<and> report_of (fetch_metal_price env m) = None)
       \<and> (spot = PFloat s \<and> \<not> is_zero s \<and> rate = PFloat r \<longrightarrow>
            (\<exists>rep. fetch_metal_price env m = Inr (Price_report rep)
               \<and> usd_ounce rep = s \<and> shown_rate rep = r \<and> inr_ounce rep = fmul s r
               \<and> total_price (ounce rep) =
                   fmul (fmul s r) (fadd (fadd (Fin 1) GST_RATE) (import_duty config))))"
proof (intro conjI impI)
  assume "\<not> truthy spot"
  then show "fetch_metal_price env m = Inr (Price_not_found (strip (lower m)))"
    by (simp add: fetch_metal_price_fetched [OF cfg data spot rate])
  then show "report_of (fetch_metal_price env m) = None"
    by (simp add: report_of_def)
next
  assume a: "spot = PFloat s \<and> \<not> is_zero s \<and> rate = PFloat r"
  then show "\<exists>rep. fetch_metal_price env m = Inr (Price_report rep)
               \<and> usd_ounce rep = s \<and> shown_rate rep = r \<and> inr_ounce rep = fmul s r
               \<and> total_price (ounce rep) =
                   fmul (fmul s r) (fadd (fadd (Fin 1) GST_RATE) (import_duty config))"
    by (simp add: fetch_metal_price_fetched [OF cfg data spot rate] price_report_floats
        calculate_prices_def)
qed

text \<open>
  The amended claim at two inputs: gold with a spot price of \<^verbatim>\<open>null\<close>, which is refused,
  and gold at \<open>-5.0\<close> dollars with a rate of \<open>-0.0\<close>, which is not.
\<close>

theorem spot_guard_witness:
  "map_of METAL_CONFIG (strip (lower ''gold'')) = Some gold_entry
   \<and> fetch_metal_data (metal_api (regular_upstream PNone (PFloat (Fin 25)) (PFloat (Fin 83)))) =
       Inr (PDict [(''curr'', PStr ''USD''), (''xauPrice'', PNone), (''xagPrice'', PFloat (Fin 25))])
   \<and> truthy (PDict [(''curr'', PStr ''USD''), (''xauPrice'', PNone), (''xagPrice'', PFloat (Fin 25))])
   \<and> py_get (PDict [(''curr'', PStr ''USD''), (''xauPrice'', PNone), (''xagPrice'', PFloat (Fin 25))])
         ''xauPrice'' PNone = Inr PNone
   \<and> get_usd_to_inr_rate (rate_api (regular_upstream PNone (PFloat (Fin 25)) (PFloat (Fin 83)))) =
       Inr (PFloat (Fin 83))
   \<and> \<not> truthy PNone
   \<and> fetch_metal_price (regular_upstream PNone (PFloat (Fin 25)) (PFloat (Fin 83))) ''gold'' =
       Inr (Price_not_found ''gold'')
   \<and> fetch_metal_data
         (metal_api (regular_upstream (PFloat (Fin (- 5))) (PFloat (Fin 25)) (PFloat NegZero))) =
       Inr (PDict [(''curr'', PStr ''USD''), (''xauPrice'', PFloat (Fin (- 5))),
         (''xagPrice'', PFloat (Fin 25))])
   \<and> py_get (PDict [(''curr'', PStr ''USD''), (''xauPrice'', PFloat (Fin (- 5))),
         (''xagPrice'', PFloat (Fin 25))]) ''xauPrice'' PNone = Inr (PFloat (Fin (- 5)))
   \<and> get_usd_to_inr_rate
         (rate_api (regular_upstream (PFloat (Fin (- 5))) (PFloat (Fin 25)) (PFloat NegZero))) =
       Inr (PFloat NegZero)
   \<and> \<not> is_zero (Fin (- 5))
   \<and> (\<exists>rep. fetch_metal_price
          (regular_upstream (PFloat (Fin (- 5))) (PFloat (Fin 25)) (PFloat NegZero)) ''gold'' =
          Inr (Price_report rep)
        \<and> usd_ounce rep = Fin (- 5) \<and> shown_rate rep = NegZero \<and> inr_ounce rep = Fin 0)"
proof -
  let ?d1 = "PDict [(''curr'', PStr ''USD''), (''xauPrice'', PNone), (''xagPrice'', PFloat (Fin 25))]"
  let ?d2 = "PDict [(''curr'', PStr ''USD''), (''xauPrice'', PFloat (Fin (- 5))),
         (''xagPrice'', PFloat (Fin 25))]"
  let ?e1 = "regular_upstream PNone (PFloat (Fin 25)) (PFloat (Fin 83))"
  let ?e2 = "regular_upstream (PFloat (Fin (- 5))) (PFloat (Fin 25)) (PFloat NegZero)"
  have cfg: "map_of METAL_CONFIG (strip (lower ''gold'')) = Some gold_entry"
    by (rule gold_config(1))
  have d1: "fetch_metal_data (metal_api ?e1) = Inr ?d1"
    and r1: "get_usd_to_inr_rate (rate_api ?e1) = Inr (PFloat (Fin 83))"
    and d2: "fetch_metal_data (metal_api ?e2) = Inr ?d2"
    and r2: "get_usd_to_inr_rate (rate_api ?e2) = Inr (PFloat NegZero)"
    by (simp_all add: fetch_regular)
  have t1: "truthy ?d1" and t2: "truthy ?d2"
    by simp_all
  have g1: "py_get ?d1 (price_key gold_entry) PNone = Inr PNone"
    and g2: "py_get ?d2 (price_key gold_entry) PNone = Inr (PFloat (Fin (- 5)))"
    by (simp_all add: entry_fields)
  have prod: "fmul (Fin (- 5)) NegZero = Fin 0"
    by (simp add: fmul_def make_double_def round_magnitude_def)
  have a: "fetch_metal_price ?e1 ''gold'' = Inr (Price_not_found ''gold'')"
    using spot_guard [OF cfg d1 t1 g1 r1] by (simp add: norm_examples)
  have b: "\<exists>rep. fetch_metal_price ?e2 ''gold'' = Inr (Price_report rep)
        \<and> usd_ounce rep = Fin (- 5) \<and> shown_rate rep = NegZero \<and> inr_ounce rep = Fin 0"
    using spot_guard [OF cfg d2 t2 g2 r2, of "Fin (- 5)" NegZero] by (auto simp: prod)
  from cfg d1 t1 g1 r1 a d2 g2 r2 b show ?thesis
    by (simp add: entry_fields)
qed

section \<open>From the ounce to ten grams\<close>



section \<open>Selectors that name no metal\<close>

text \<open>
  Against claim C4 as it is worded: the string \<^verbatim>\<open>GOLD\<close> is neither \<^verbatim>\<open>gold\<close> nor
  \<^verbatim>\<open>silver\<close>, and the tool answers it with the report for gold.
\<close>

theorem unknown_metal_counterexample:
  "''GOLD'' \<notin> {''gold'', ''silver''}
   \<and> map_option inr_ounce (report_of (fetch_metal_price
        (regular_upstream (PFloat (Fin 2000)) (PFloat (Fin 25)) (PFloat (Fin 83))) ''GOLD'')) =
      Some (Fin 166000)"
  by (simp add: fetch_metal_price_regular [OF gold_config(2), where s = "Fin 2000"]
      report_of_def entry_fields(1) gold_base)

text \<open>
  Claim C4, amended.  For every selector whose lowered and stripped form is neither
  \<^verbatim>\<open>gold\<close> nor \<^verbatim>\<open>silver\<close>, and whatever the upstream services do, the tool returns the
  message for an invalid metal type, which names the normalised selector and lists
  \<^verbatim>\<open>"gold", "silver"\<close>; no report is produced.
\<close>

theorem unknown_metal_reply:
  assumes "strip (lower m) \<notin> {''gold'', ''silver''}"
  shows "fetch_metal_price env m =
      Inr (Invalid_metal_type (strip (lower m))
        ([CHR 0x22] @ ''gold'' @ [CHR 0x22] @ '', '' @ [CHR 0x22] @ ''silver'' @ [CHR 0x22]))
    \<and> report_of (fetch_metal_price env m) = None"
proof -
  from assms have "map_of METAL_CONFIG (strip (lower m)) = None"
    by (simp add: map_of_METAL_CONFIG_None)
  then have "fetch_metal_price env m = Inr (Invalid_metal_type (strip (lower m)) valid_metals)"
    by (rule fetch_metal_price_unknown)
  then show ?thesis
    by (simp add: valid_metals_text report_of_def)
qed

text \<open>The amended claim at the selector \<^verbatim>\<open>platinum\<close>.\<close>

theorem unknown_metal_reply_witness:
  "strip (lower ''platinum'') \<notin> {''gold'', ''silver''}
   \<and> fetch_metal_price (regular_upstream (PFloat (Fin 2000)) (PFloat (Fin 25)) (PFloat (Fin 83)))
        ''platinum'' =
      Inr (Invalid_metal_type ''platinum''
        ([CHR 0x22] @ ''gold'' @ [CHR 0x22] @ '', '' @ [CHR 0x22] @ ''silver'' @ [CHR 0x22]))
   \<and> report_of (fetch_metal_price
        (regular_upstream (PFloat (Fin 2000)) (PFloat (Fin 25)) (PFloat (Fin 83))) ''platinum'')
      = None"
proof -
  have h: "strip (lower ''platinum'') \<notin> {''gold'', ''silver''}"
    by (simp add: norm_examples)
  have "fetch_metal_price (regular_upstream (PFloat (Fin 2000)) (PFloat (Fin 25)) (PFloat (Fin 83)))
        ''platinum'' =
      Inr (Invalid_metal_type ''platinum''
        ([CHR 0x22] @ ''gold'' @ [CHR 0x22] @ '', '' @ [CHR 0x22] @ ''silver'' @ [CHR 0x22]))
   \<and> report_of (fetch_metal_price
        (regular_upstream (PFloat (Fin 2000)) (PFloat (Fin 25)) (PFloat (Fin 83))) ''platinum'')
      = None"
    by (rule unknown_metal_reply
        [OF h, of "regular_upstream (PFloat (Fin 2000)) (PFloat (Fin 25)) (PFloat (Fin 83))",
         unfolded norm_examples])
  with h show ?thesis
    by blast
qed

section \<open>The two scenarios\<close>

text \<open>
  Claim C5.  Gold at 2000.00 dollars an ounce and a rate of 83.00, whatever the price of
  silver in the same answer: the report has the base 166000.00 rupees per ounce, 4980.00
  of GST, 9960.00 of duty at the rate of 6 percent, and 180940.00 in total, each of them
  the double the code computes.
\<close>

theorem gold_scenario:
  "map_option inr_ounce (report_of (fetch_metal_price
      (regular_upstream (PFloat (Fin 2000.00)) xag (PFloat (Fin 83.00))) ''gold'')) =
     Some (Fin 166000.00)
   \<and> map_option (gst_amount \<circ> ounce) (report_of (fetch_metal_price
      (regular_upstream (PFloat (Fin 2000.00)) xag (PFloat (Fin 83.00))) ''gold'')) =
     Some (Fin 4980.00)
   \<and> map_option (duty_amount \<circ> ounce) (report_of (fetch_metal_price
      (regular_upstream (PFloat (Fin 2000.00)) xag (PFloat (Fin 83.00))) ''gold'')) =
     Some (Fin 9960.00)
   \<and> map_option duty_percent (report_of (fetch_metal_price
      (regular_upstream (PFloat (Fin 2000.00)) xag (PFloat (Fin 83.00))) ''gold'')) =
     Some (Fin 6)
   \<and> map_option (total_price \<circ> ounce) (report_of (fetch_metal_price
      (regular_upstream (PFloat (Fin 2000.00)) xag (PFloat (Fin 83.00))) ''gold'')) =
     Some (Fin 180940.00)"
  by (simp add: fetch_metal_price_regular [OF gold_config(1), where s = "Fin 2000"]
      report_of_def calculate_prices_def constant_values entry_fields(1)
      one_plus_gst rates_gold gold_base gold_gst gold_duty gold_total percent_gold)

text \<open>
  Claim C6.  Silver at 25.00 dollars an ounce and a rate of 83.00, whatever the price of
  gold in the same answer: the report has the base 2075.00 rupees per ounce, 155.625 of
  duty at the rate of 7.5 percent, and 2292.875 in total, which is also what
  \<open>2075 * 1.105\<close> is in doubles.
\<close>

theorem silver_scenario:
  "map_option inr_ounce (report_of (fetch_metal_price
      (regular_upstream xau (PFloat (Fin 25.00)) (PFloat (Fin 83.00))) ''silver'')) =
     Some (Fin 2075.00)
   \<and> map_option (duty_amount \<circ> ounce) (report_of (fetch_metal_price
      (regular_upstream xau (PFloat (Fin 25.00)) (PFloat (Fin 83.00))) ''silver'')) =
     Some (Fin 155.625)
   \<and> map_option duty_percent (report_of (fetch_metal_price
      (regular_upstream xau (PFloat (Fin 25.00)) (PFloat (Fin 83.00))) ''silver'')) =
     Some (Fin 7.5)
   \<and> map_option (total_price \<circ> ounce) (report_of (fetch_metal_price
      (regular_upstream xau (PFloat (Fin 25.00)) (PFloat (Fin 83.00))) ''silver'')) =
     Some (fmul (Fin 2075) (float_literal 1.105))
   \<and> fmul (Fin 2075) (float_literal 1.105) = Fin 2292.875"
  unfolding lit_1105
  by (simp add: fetch_metal_price_regular [OF silver_config(1), where s = "Fin 25"]
      report_of_def calculate_prices_def constant_values entry_fields(3)
      one_plus_gst rates_silver silver_base silver_duty silver_total silver_total_literal
      percent_silver)

section \<open>The reply depends on the inputs only\<close>

text \<open>
  Claim C7.  Two invocations with the same selector, naming a metal, may meet different
  answers of the upstream services and different machines.  If both get metal data, the
  same value for the spot price of the metal and the same value for the exchange rate,
  both of them numbers, they return the same reply: nothing else of the answers, and no
  state kept between calls, enters the result.  (Values that are not numbers give the
  same reply as well where the two machines grant the same memory, which the
  repetition of a string or list may ask for.)
\<close>

theorem same_inputs_same_reply:
  assumes cfg: "map_of METAL_CONFIG (strip (lower m)) = Some config"
    and d1: "fetch_metal_data (metal_api env1) = Inr data1"
    and d2: "fetch_metal_data (metal_api env2) = Inr data2"
    and t1: "truthy data1" and t2: "truthy data2"
    and s1: "py_get data1 (price_key config) PNone = Inr spot"
    and s2: "py_get data2 (price_key config) PNone = Inr spot"
    and r1: "get_usd_to_inr_rate (rate_api env1) = Inr rate"
    and r2: "get_usd_to_inr_rate (rate_api env2) = Inr rate"
    and mem: "(as_double spot \<noteq> None \<and> as_double rate \<noteq> None)
              \<or> can_allocate env1 = can_allocate env2"
  shows "fetch_metal_price env1 m = fetch_metal_price env2 m"
proof -
  have "price_report (can_allocate env1) config (strip (lower m)) spot rate =
      price_report (can_allocate env2) config (strip (lower m)) spot rate"
    using mem by (auto intro: price_report_numbers)
  then show ?thesis
    by (simp add: fetch_metal_price_fetched [OF cfg d1 t1 s1 r1]
        fetch_metal_price_fetched [OF cfg d2 t2 s2 r2])
qed

text \<open>
  The claim at gold, for two answers that differ in the price of silver and two machines
  of which one grants every allocation and the other none.
\<close>

theorem same_inputs_same_reply_witness:
  "map_of METAL_CONFIG (strip (lower ''gold'')) = Some gold_entry
   \<and> fetch_metal_data
         (metal_api (regular_upstream (PFloat (Fin 2000)) (PFloat (Fin 25)) (PFloat (Fin 83)))) =
       Inr (PDict [(''curr'', PStr ''USD''), (''xauPrice'', PFloat (Fin 2000)),
         (''xagPrice'', PFloat (Fin 25))])
   \<and> fetch_metal_data
         (metal_api ((regular_upstream (PFloat (Fin 2000)) (PFloat (Fin 31)) (PFloat (Fin 83)))
            \<lparr>can_allocate := (\<lambda>n. False)\<rparr>)) =
       Inr (PDict [(''curr'', PStr ''USD''), (''xauPrice'', PFloat (Fin 2000)),
         (''xagPrice'', PFloat (Fin 31))])
   \<and> truthy (PDict [(''curr'', PStr ''USD''), (''xauPrice'', PFloat (Fin 2000)),
         (''xagPrice'', PFloat (Fin 25))])
   \<and> truthy (PDict [(''curr'', PStr ''USD''), (''xauPrice'', PFloat (Fin 2000)),
         (''xagPrice'', PFloat (Fin 31))])
   \<and> py_get (PDict [(''curr'', PStr ''USD''), (''xauPrice'', PFloat (Fin 2000)),
         (''xagPrice'', PFloat (Fin 25))]) ''xauPrice'' PNone = Inr (PFloat (Fin 2000))
   \<and> py_get (PDict [(''curr'', PStr ''USD''), (''xauPrice'', PFloat (Fin 2000)),
         (''xagPrice'', PFloat (Fin 31))]) ''xauPrice'' PNone = Inr (PFloat (Fin 2000))
   \<and> get_usd_to_inr_rate
         (rate_api (regular_upstream (PFloat (Fin 2000)) (PFloat (Fin 25)) (PFloat (Fin 83)))) =
       Inr (PFloat (Fin 83))
   \<and> get_usd_to_inr_rate
         (rate_api ((regular_upstream (PFloat (Fin 2000)) (PFloat (Fin 31)) (PFloat (Fin 83)))
            \<lparr>can_allocate := (\<lambda>n. False)\<rparr>)) =
       Inr (PFloat (Fin 83))
   \<and> as_double (PFloat (Fin 2000)) \<noteq> None \<and> as_double (PFloat (Fin 83)) \<noteq> None
   \<and> can_allocate (regular_upstream (PFloat (Fin 2000)) (PFloat (Fin 25)) (PFloat (Fin 83))) \<noteq>
       can_allocate ((regular_upstream (PFloat (Fin 2000)) (PFloat (Fin 31)) (PFloat (Fin 83)))
            \<lparr>can_allocate := (\<lambda>n. False)\<rparr>)
   \<and> fetch_metal_price
         (regular_upstream (PFloat (Fin 2000)) (PFloat (Fin 25)) (PFloat (Fin 83))) ''gold'' =
       fetch_metal_price
         ((regular_upstream (PFloat (Fin 2000)) (PFloat (Fin 31)) (PFloat (Fin 83)))
            \<lparr>can_allocate := (\<lambda>n. False)\<rparr>) ''gold''"
proof -
  let ?d1 = "PDict [(''curr'', PStr ''USD''), (''xauPrice'', PFloat (Fin 2000)),
         (''xagPrice'', PFloat (Fin 25))]"
  let ?d2 = "PDict [(''curr'', PStr ''USD''), (''xauPrice'', PFloat (Fin 2000)),
         (''xagPrice'', PFloat (Fin 31))]"
  let ?e1 = "regular_upstream (PFloat (Fin 2000)) (PFloat (Fin 25)) (PFloat (Fin 83))"
  let ?e2 = "(regular_upstream (PFloat (Fin 2000)) (PFloat (Fin 31)) (PFloat (Fin 83)))
            \<lparr>can_allocate := (\<lambda>n. False)\<rparr>"
  have cfg: "map_of METAL_CONFIG (strip (lower ''gold'')) = Some gold_entry"
    by (rule gold_config(1))
  have d1: "fetch_metal_data (metal_api ?e1) = Inr ?d1"
    and d2: "fetch_metal_data (metal_api ?e2) = Inr ?d2"
    and r1: "get_usd_to_inr_rate (rate_api ?e1) = Inr (PFloat (Fin 83))"
    and r2: "get_usd_to_inr_rate (rate_api ?e2) = Inr (PFloat (Fin 83))"
    by (simp_all add: fetch_regular)
  have t1: "truthy ?d1" and t2: "truthy ?d2"
    by simp_all
  have g1: "py_get ?d1 (price_key gold_entry) PNone = Inr (PFloat (Fin 2000))"
    and g2: "py_get ?d2 (price_key gold_entry) PNone = Inr (PFloat (Fin 2000))"
    by (simp_all add: entry_fields)
  have num: "as_double (PFloat (Fin 2000)) \<noteq> None \<and> as_double (PFloat (Fin 83)) \<noteq> None"
    by simp
  have ne: "can_allocate ?e1 \<noteq> can_allocate ?e2"
    by (simp add: regular_upstream_def fun_eq_iff)
  have "fetch_metal_price ?e1 ''gold'' = fetch_metal_price ?e2 ''gold''"
    using num by (intro same_inputs_same_reply [OF cfg d1 d2 t1 t2 g1 g2 r1 r2]) simp
  with cfg d1 d2 t1 t2 g1 g2 r1 r2 ne show ?thesis
    by (simp add: entry_fields)
qed

section \<open>No exception leaves the tool\<close>

text \<open>
  Claim C8.  For every selector and every behaviour of the two upstream services, the tool
  returns a reply and raises nothing; when the body of its \<^verbatim>\<open>try\<close> raises \<open>e\<close>, the reply
  is the error message that names the normalised selector and \<open>e\<close>.
\<close>

theorem never_raises:
  "\<exists>out. fetch_metal_price env m = Inr out
     \<and> (fetch_metal_price_try env (strip (lower m)) = Inl e \<longrightarrow>
          out = Error_fetching (strip (lower m)) e)"
  by (cases "fetch_metal_price_try env (strip (lower m))")
    (simp_all add: fetch_metal_price_def Let_def)

text \<open>
  The claim where the price service answers with a JSON list: \<^verbatim>\<open>.get\<close> on it raises
  \<^verbatim>\<open>AttributeError\<close>, which \<^verbatim>\<open>fetch_metal_data\<close> does not handle and the tool does.
\<close>

theorem never_raises_witness:
  "fetch_metal_price_try
      \<lparr>metal_api = Json (PList []), rate_api = Raises (Exn RequestException []),
       can_allocate = (\<lambda>n. True)\<rparr>
      (strip (lower ''gold'')) =
     Inl (Exn AttributeError
       (quoted ''list'' @ '' object has no attribute '' @ quoted ''get''))
   \<and> fetch_metal_price
      \<lparr>metal_api = Json (PList []), rate_api = Raises (Exn RequestException []),
       can_allocate = (\<lambda>n. True)\<rparr> ''gold'' =
     Inr (Error_fetching ''gold'' (Exn AttributeError
       (quoted ''list'' @ '' object has no attribute '' @ quoted ''get'')))"
proof -
  let ?env = "\<lparr>metal_api = Json (PList []), rate_api = Raises (Exn RequestException []),
       can_allocate = (\<lambda>n. True)\<rparr>"
  let ?e = "Exn AttributeError (quoted ''list'' @ '' object has no attribute '' @ quoted ''get'')"
  have raised: "fetch_metal_price_try ?env (strip (lower ''gold'')) = Inl ?e"
    by (simp add: norm_examples fetch_metal_price_try_def METAL_CONFIG_def fetch_metal_data_def
        try_except_def)
  from never_raises [of ?env "''gold''" ?e] raised
  have "fetch_metal_price ?env ''gold'' = Inr (Error_fetching (strip (lower ''gold'')) ?e)"
    by blast
  with raised show ?thesis
    by (simp add: norm_examples)
qed

section \<open>The fallback exchange rate\<close>

text \<open>
  Claim C9, at inputs where the code does not do what the claim says.  A rate service that
  answers with \<^verbatim>\<open>{"rates": null}\<close>, or with a JSON list, has no rate for INR; the lookup
  then raises \<^verbatim>\<open>AttributeError\<close>, which its handler does not name, instead of returning
  83.0.  With \<^verbatim>\<open>{"rates": {"INR": null}}\<close> it returns \<^verbatim>\<open>None\<close>.
\<close>

theorem rate_lookup_escapes:
  "get_usd_to_inr_rate (Json (PDict [(''rates'', PNone)])) =
     Inl (Exn AttributeError (quoted ''NoneType'' @ '' object has no attribute '' @ quoted ''get''))
   \<and> get_usd_to_inr_rate (Json (PList [])) =
     Inl (Exn AttributeError (quoted ''list'' @ '' object has no attribute '' @ quoted ''get''))
   \<and> get_usd_to_inr_rate (Json (PDict [(''rates'', PDict [(''INR'', PNone)])])) = Inr PNone"
  by (simp add: get_usd_to_inr_rate_def try_except_def)

section \<open>The selector is normalised first\<close>

text \<open>
  Claim C10.  For every selector \<open>m\<close> and whatever the upstream services do, the tool
  replies to \<open>m\<close> as it replies to \<open>m\<close> lowered and stripped.  So \<^verbatim>\<open>GOLD\<close> is answered as
  \<^verbatim>\<open>gold\<close> and \<^verbatim>\<open> Silver \<close> as \<^verbatim>\<open>silver\<close>; neither is ever answered with the message
  for an invalid metal type; each finds the entry of its metal in \<^verbatim>\<open>METAL_CONFIG\<close>; and
  with regular answers of the services each gets the report of its metal, at the duty
  of 6 and of 7.5 percent.
\<close>

theorem selector_normalised:
  "fetch_metal_price env m = fetch_metal_price env (strip (lower m))
   \<and> fetch_metal_price env ''GOLD'' = fetch_metal_price env ''gold''
   \<and> fetch_metal_price env '' Silver '' = fetch_metal_price env ''silver''
   \<and> fetch_metal_price env ''GOLD'' \<noteq> Inr (Invalid_metal_type x y)
   \<and> fetch_metal_price env '' Silver '' \<noteq> Inr (Invalid_metal_type x y)
   \<and> map_option price_key (map_of METAL_CONFIG (strip (lower ''GOLD''))) = Some ''xauPrice''
   \<and> map_option price_key (map_of METAL_CONFIG (strip (lower '' Silver ''))) = Some ''xagPrice''
   \<and> map_option shown_metal (report_of (fetch_metal_price
        (regular_upstream (PFloat (Fin 2000)) (PFloat (Fin 25)) (PFloat (Fin 83))) ''GOLD'')) =
      Some ''gold''
   \<and> map_option duty_percent (report_of (fetch_metal_price
        (regular_upstream (PFloat (Fin 2000)) (PFloat (Fin 25)) (PFloat (Fin 83))) ''GOLD'')) =
      Some (Fin 6)
   \<and> map_option shown_metal (report_of (fetch_metal_price
        (regular_upstream (PFloat (Fin 2000)) (PFloat (Fin 25)) (PFloat (Fin 83))) '' Silver '')) =
      Some ''silver''
   \<and> map_option duty_percent (report_of (fetch_metal_price
        (regular_upstream (PFloat (Fin 2000)) (PFloat (Fin 25)) (PFloat (Fin 83))) '' Silver '')) =
      Some (Fin 7.5)"
proof -
  have eq: "fetch_metal_price env a = fetch_metal_price env b"
    if "strip (lower a) = strip (lower b)" for a b
    using that by (simp add: fetch_metal_price_def)
  have "fetch_metal_price env m = fetch_metal_price env (strip (lower m))"
    by (rule eq) (simp add: normalise_idem)
  moreover have "fetch_metal_price env ''GOLD'' = fetch_metal_price env ''gold''"
    by (rule eq) (simp add: norm_examples)
  moreover have "fetch_metal_price env '' Silver '' = fetch_metal_price env ''silver''"
    by (rule eq) (simp add: norm_examples)
  moreover have "fetch_metal_price env ''GOLD'' \<noteq> Inr (Invalid_metal_type x y)"
    by (rule known_metal_not_invalid [OF gold_config(2)])
  moreover have "fetch_metal_price env '' Silver '' \<noteq> Inr (Invalid_metal_type x y)"
    by (rule known_metal_not_invalid [OF silver_config(2)])
  moreover have
    "map_option price_key (map_of METAL_CONFIG (strip (lower ''GOLD''))) = Some ''xauPrice''"
    "map_option price_key (map_of METAL_CONFIG (strip (lower '' Silver ''))) = Some ''xagPrice''"
    by (simp_all add: gold_config silver_config entry_fields)
  moreover have
    "map_option shown_metal (report_of (fetch_metal_price
        (regular_upstream (PFloat (Fin 2000)) (PFloat (Fin 25)) (PFloat (Fin 83))) ''GOLD'')) =
      Some ''gold''"
    "map_option duty_percent (report_of (fetch_metal_price
        (regular_upstream (PFloat (Fin 2000)) (PFloat (Fin 25)) (PFloat (Fin 83))) ''GOLD'')) =
      Some (Fin 6)"
    by (simp_all add: fetch_metal_price_regular [OF gold_config(2), where s = "Fin 2000"]
        report_of_def entry_fields(1) constant_values percent_gold norm_examples)
  moreover have
    "map_option shown_metal (report_of (fetch_metal_price
        (regular_upstream (PFloat (Fin 2000)) (PFloat (Fin 25)) (PFloat (Fin 83))) '' Silver '')) =
      Some ''silver''"
    "map_option duty_percent (report_of (fetch_metal_price
        (regular_upstream (PFloat (Fin 2000)) (PFloat (Fin 25)) (PFloat (Fin 83))) '' Silver '')) =
      Some (Fin 7.5)"
    by (simp_all add: fetch_metal_price_regular [OF silver_config(2), where s = "Fin 25"]
        report_of_def entry_fields(3) constant_values percent_silver norm_examples)
  ultimately show ?thesis
    by blast
qed

end
